theory Spec2Isabelle
  imports Main "HOL-Library.Word"
begin

unbundle bit_operations_syntax

section \<open>UMC HB4 (8881F) host bridge: configuration registers, shadow RAM, SMRAM\<close>

text \<open>
  Shallow embedding of \<^verbatim>\<open>src/chipset/umc_hb4.c\<close>. The device owns 128 configuration
  bytes; a write applies a per-offset policy and may call into the memory subsystem, the
  SMRAM subsystem or the CPU timing code. Those collaborators live outside this file of
  the emulator, so every call to them is recorded, with its arguments, in a chronological
  call log carried by the machine state.
\<close>

subsection \<open>Data model\<close>

type_synonym u8 = "8 word"
type_synonym u32 = "32 word"

text \<open>
  Modelled from the spec: the flag macros \<^verbatim>\<open>MEM_READ_INTERNAL\<close>, \<^verbatim>\<open>MEM_READ_EXTANY\<close>,
  \<^verbatim>\<open>MEM_WRITE_INTERNAL\<close> and \<^verbatim>\<open>MEM_WRITE_EXTANY\<close> are declared in \<^verbatim>\<open>86box/mem.h\<close>, which
  is not among the sources. The spec describes a window's permission as a read mode and a
  write mode, each Internal or ExternalAny; the flag word \<^verbatim>\<open>MEM_READ_x | MEM_WRITE_y\<close> is
  kept symbolic as the pair \<open>(x, y)\<close>.
\<close>

datatype mem_read = MEM_READ_INTERNAL | MEM_READ_EXTANY
datatype mem_write = MEM_WRITE_INTERNAL | MEM_WRITE_EXTANY

type_synonym mem_state = "mem_read \<times> mem_write"

text \<open>The \<^verbatim>\<open>smram_t *\<close> handle returned by \<^verbatim>\<open>smram_add()\<close> is opaque to the device.\<close>

type_synonym smram_t = nat

text \<open>Calls made to code outside the device, in the argument order of the C call.\<close>

datatype call =
    Mem_set_mem_state_both u32 u32 mem_state
  | Flushmmucache_nopc
  | Smram_disable_all
  | Smram_enable smram_t u32 u32 u32 int int
  | Mem_set_mem_state_smram_ex int u32 u32 int
  | Cpu_update_waitstates
  | Pci_add_card
  | Device_add_port_92
  | Smram_add

text \<open>\<^verbatim>\<open>struct hb4_t\<close>: \<^verbatim>\<open>uint8_t pci_conf[128]\<close> and the SMRAM handle.\<close>

record hb4_t =
  pci_conf :: "u8 list"
  smram :: smram_t

text \<open>
  The device, the global \<^verbatim>\<open>cpu_cache_ext_enabled\<close> that register 0x50 drives, and the
  log of external calls (oldest first).
\<close>

record machine =
  dev :: hb4_t
  cpu_cache_ext_enabled :: int
  calls :: "call list"

text \<open>The C array has exactly 128 entries.\<close>

definition wf_machine :: "machine \<Rightarrow> bool" where
  "wf_machine m = (length (pci_conf (dev m)) = 128)"

definition conf :: "machine \<Rightarrow> int \<Rightarrow> u8" where
  "conf m addr = pci_conf (dev m) ! nat addr"

definition set_conf :: "int \<Rightarrow> u8 \<Rightarrow> machine \<Rightarrow> machine" where
  "set_conf addr v m = m\<lparr>dev := (dev m)\<lparr>pci_conf := (pci_conf (dev m))[nat addr := v]\<rparr>\<rparr>"

definition emit :: "call \<Rightarrow> machine \<Rightarrow> machine" where
  "emit c m = m\<lparr>calls := calls m @ [c]\<rparr>"

subsection \<open>Shadow-region controller: \<^verbatim>\<open>hb4_shadow\<close>\<close>

text \<open>
  The \<^verbatim>\<open>for (int i = 0; i < 5; i++)\<close> loop of \<^verbatim>\<open>hb4_shadow\<close>. The register byte is
  promoted to \<^verbatim>\<open>int\<close> before \<^verbatim>\<open>>> i\<close>; on values below 256 that is the logical shift of
  the byte. The base \<^verbatim>\<open>0xc8000 + (i << 14)\<close> is computed on \<^verbatim>\<open>int\<close> and passed as
  \<^verbatim>\<open>uint32_t\<close>.
\<close>

function hb4_shadow_loop :: "int \<Rightarrow> machine \<Rightarrow> machine" where
  "hb4_shadow_loop i m =
     (if i < 5 then
        hb4_shadow_loop (i + 1)
          (if drop_bit (nat i) (conf m 0x54) AND 4 \<noteq> 0 then
             emit (Mem_set_mem_state_both (word_of_int (0xc8000 + push_bit 14 i)) 0x8000
                     (MEM_READ_INTERNAL,
                      if conf m 0x55 AND 0x40 \<noteq> 0 then MEM_WRITE_EXTANY else MEM_WRITE_INTERNAL)) m
           else
             emit (Mem_set_mem_state_both (word_of_int (0xc8000 + push_bit 14 i)) 0x8000
                     (MEM_READ_EXTANY, MEM_WRITE_EXTANY)) m)
      else m)"
  by pat_completeness auto
termination
  by (relation "measure (\<lambda>(i, m). nat (5 - i))") auto

declare hb4_shadow_loop.simps [simp del]

definition hb4_shadow :: "machine \<Rightarrow> machine" where
  "hb4_shadow m =
     (let m1 = emit (Mem_set_mem_state_both 0xe0000 0x20000
                       (if conf m 0x55 AND 0x80 \<noteq> 0 then MEM_READ_INTERNAL else MEM_READ_EXTANY,
                        if conf m 0x55 AND 0x40 \<noteq> 0 then MEM_WRITE_EXTANY else MEM_WRITE_INTERNAL)) m;
          m2 = (if conf m1 0x54 AND 1 \<noteq> 0 then
                  hb4_shadow_loop 0
                    (if conf m1 0x54 AND 2 \<noteq> 0 then
                       emit (Mem_set_mem_state_both 0xc0000 0x8000
                               (MEM_READ_INTERNAL,
                                if conf m1 0x55 AND 0x40 \<noteq> 0 then MEM_WRITE_EXTANY
                                else MEM_WRITE_INTERNAL)) m1
                     else
                       emit (Mem_set_mem_state_both 0xc0000 0x8000
                               (MEM_READ_EXTANY, MEM_WRITE_EXTANY)) m1)
                else m1)
      in emit Flushmmucache_nopc m2)"

subsection \<open>SMRAM controller: \<^verbatim>\<open>hb4_smram\<close>\<close>

text \<open>
  \<^verbatim>\<open>dev->pci_conf[0x60] & 0x01\<close> is passed as the \<^verbatim>\<open>int\<close> argument that makes SMRAM
  visible outside SMM; the last argument, visibility inside SMM, is the constant 1.
\<close>

definition hb4_smram :: "machine \<Rightarrow> machine" where
  "hb4_smram m =
     (let m1 = emit Smram_disable_all m;
          m2 = emit (Smram_enable (smram (dev m1)) 0x000a0000 0x000a0000 0x20000
                       (uint (conf m1 0x60 AND 0x01)) 1) m1
      in if conf m2 0x60 AND 0x20 \<noteq> 0 then
           emit (Mem_set_mem_state_smram_ex 1 0x000a0000 0x20000 0x02)
             (if conf m2 0x60 AND 0x01 \<noteq> 0 then
                emit (Mem_set_mem_state_smram_ex 0 0x000a0000 0x20000 0x02) m2
              else m2)
         else m2)"

subsection \<open>Register store: \<^verbatim>\<open>hb4_write\<close> and \<^verbatim>\<open>hb4_read\<close>\<close>

text \<open>
  The \<^verbatim>\<open>switch (addr)\<close> of \<^verbatim>\<open>hb4_write\<close>, case by case in source order; an address with
  no case label falls out of the switch. \<^verbatim>\<open>hb4_log\<close> expands to nothing unless logging
  is compiled in. In case 0x07 the operands are promoted to \<^verbatim>\<open>int\<close> and the result is
  truncated to a byte, which is the bytewise operation.
\<close>

definition hb4_write :: "int \<Rightarrow> int \<Rightarrow> u8 \<Rightarrow> machine \<Rightarrow> machine" where
  "hb4_write func addr val m =
     (if addr = 0x04 \<or> addr = 0x05 then set_conf addr val m
      else if addr = 0x07 then set_conf addr (conf m addr AND NOT (val AND 0xf9)) m
      else if addr = 0x0c \<or> addr = 0x0d then set_conf addr val m
      else if addr = 0x50 then
        emit Cpu_update_waitstates
          ((set_conf addr ((val AND 0xf8) OR 4) m)
             \<lparr>cpu_cache_ext_enabled := (if val AND 0x80 \<noteq> 0 then 1 else 0)\<rparr>)
      else if addr = 0x51 \<or> addr = 0x52 \<or> addr = 0x53 then set_conf addr val m
      else if addr = 0x54 \<or> addr = 0x55 then hb4_shadow (set_conf addr val m)
      else if 0x56 \<le> addr \<and> addr \<le> 0x5f then set_conf addr val m
      else if addr = 0x60 then hb4_smram (set_conf addr val m)
      else if addr = 0x61 then set_conf addr val m
      else m)"

text \<open>
  \<^verbatim>\<open>hb4_read\<close> returns \<^verbatim>\<open>dev->pci_conf[addr]\<close> with no check of \<^verbatim>\<open>addr\<close>. Reading outside
  the 128-byte array is undefined behaviour in C; the model returns \<open>None\<close> there.
\<close>

definition hb4_read :: "int \<Rightarrow> int \<Rightarrow> machine \<Rightarrow> u8 option" where
  "hb4_read func addr m =
     (if 0 \<le> addr \<and> addr < 128 then Some (pci_conf (dev m) ! nat addr) else None)"

subsection \<open>Lifecycle: \<^verbatim>\<open>hb4_reset\<close> and \<^verbatim>\<open>hb4_init\<close>\<close>

definition hb4_reset :: "machine \<Rightarrow> machine" where
  "hb4_reset m =
     hb4_write 0 0x60 0x20
       (hb4_shadow
          (set_conf 0x5f 0xff
          (set_conf 0x5d 0x20
          (set_conf 0x5c 0xc0
          (set_conf 0x5a 4
          (set_conf 0x52 1
          (set_conf 0x51 1
          (set_conf 0x0b 0x06
          (set_conf 0x0a 0x00
          (set_conf 0x09 0x00
          (set_conf 8 4
          (set_conf 7 2
          (set_conf 3 0x88
          (set_conf 2 0x81
          (set_conf 1 0x10
          (set_conf 0 0x60 m))))))))))))))))"

text \<open>
  \<^verbatim>\<open>hb4_init\<close>: a zeroed device, registration on the PCI bus, the port 92 device, the
  SMRAM handle (whatever \<^verbatim>\<open>smram_add()\<close> returned, here the parameter \<open>smr\<close>), then reset.
  \<open>cache\<close> and \<open>log\<close> are the value of the global and the calls made so far when the
  device is created.
\<close>

definition hb4_init :: "smram_t \<Rightarrow> int \<Rightarrow> call list \<Rightarrow> machine" where
  "hb4_init smr cache log =
     hb4_reset
       \<lparr>dev = \<lparr>pci_conf = replicate 128 0, smram = smr\<rparr>,
        cpu_cache_ext_enabled = cache,
        calls = log @ [Pci_add_card, Device_add_port_92, Smram_add]\<rparr>"

section \<open>What the spec says the controllers emit\<close>

text \<open>
  The spec (4.2) gives the shadow-region controller as a recipe over registers 0x54 and
  0x55. The next two definitions follow the spec's words, not the C code, so that the
  C code can be compared with them. A window governed by an enable bit: enabled means read
  mode Internal and write mode ExternalAny if bit 6 of register 0x55 is set, else Internal;
  disabled means ExternalAny for both.
\<close>

definition spec_window_state :: "bool \<Rightarrow> u8 \<Rightarrow> mem_state" where
  "spec_window_state enabled r55 =
     (if enabled then
        (MEM_READ_INTERNAL, if bit r55 6 then MEM_WRITE_EXTANY else MEM_WRITE_INTERNAL)
      else (MEM_READ_EXTANY, MEM_WRITE_EXTANY))"

text \<open>
  Step 1: the window at 0xE0000, always. Steps 2 and 3: only if bit 0 of register 0x54 is
  set, the window at 0xC0000 under bit 1, then five windows at 0xC8000 + i * 0x4000 under
  bit i + 2. Step 4: the flush.
\<close>

definition spec_shadow_calls :: "u8 \<Rightarrow> u8 \<Rightarrow> call list" where
  "spec_shadow_calls r54 r55 =
     [Mem_set_mem_state_both 0xe0000 0x20000
        (if bit r55 7 then MEM_READ_INTERNAL else MEM_READ_EXTANY,
         if bit r55 6 then MEM_WRITE_EXTANY else MEM_WRITE_INTERNAL)] @
     (if bit r54 0 then
        Mem_set_mem_state_both 0xc0000 0x8000 (spec_window_state (bit r54 1) r55) #
        map (\<lambda>i. Mem_set_mem_state_both (0xc8000 + of_nat i * 0x4000) 0x8000
                    (spec_window_state (bit r54 (i + 2)) r55)) [0..<5]
      else []) @
     [Flushmmucache_nopc]"

text \<open>
  The spec (4.3) for the SMRAM controller: disable everything, enable the fixed region
  with visibility outside SMM taken from bit 0 of register 0x60 and visibility inside SMM
  always on, and, if bit 5 is set, route alias 0 (only with bit 0) and alias 1.
\<close>

definition spec_smram_calls :: "smram_t \<Rightarrow> u8 \<Rightarrow> call list" where
  "spec_smram_calls smr r60 =
     [Smram_disable_all,
      Smram_enable smr 0xa0000 0xa0000 0x20000 (if bit r60 0 then 1 else 0) 1] @
     (if bit r60 5 then
        (if bit r60 0 then [Mem_set_mem_state_smram_ex 0 0xa0000 0x20000 0x02] else []) @
        [Mem_set_mem_state_smram_ex 1 0xa0000 0x20000 0x02]
      else [])"

subsection \<open>Address ranges of the windows\<close>

text \<open>The address range (base, length) that a call to the memory subsystem covers.\<close>

fun call_window :: "call \<Rightarrow> (nat \<times> nat) list" where
  "call_window (Mem_set_mem_state_both b n st) = [(unat b, unat n)]"
| "call_window _ = []"

definition windows_of :: "call list \<Rightarrow> (nat \<times> nat) list" where
  "windows_of cs = concat (map call_window cs)"

text \<open>Two half-open ranges \<open>[b, b + n)\<close> share an address.\<close>

fun windows_overlap :: "nat \<times> nat \<Rightarrow> nat \<times> nat \<Rightarrow> bool" where
  "windows_overlap (b1, n1) (b2, n2) = (b1 < b2 + n2 \<and> b2 < b1 + n1)"

fun pairwise_disjoint :: "(nat \<times> nat) list \<Rightarrow> bool" where
  "pairwise_disjoint [] = True"
| "pairwise_disjoint (w # ws) =
     (list_all (\<lambda>w'. \<not> windows_overlap w w') ws \<and> pairwise_disjoint ws)"

text \<open>The calls a state transformer appended to the log.\<close>

definition emitted :: "machine \<Rightarrow> machine \<Rightarrow> call list" where
  "emitted m m' = drop (length (calls m)) (calls m')"

section \<open>Basic facts about the state helpers\<close>

lemma conf_emit [simp]: "conf (emit c m) a = conf m a"
  by (simp add: conf_def emit_def)

lemma dev_emit [simp]: "dev (emit c m) = dev m"
  by (simp add: emit_def)

lemma calls_emit [simp]: "calls (emit c m) = calls m @ [c]"
  by (simp add: emit_def)

lemma cache_emit [simp]: "cpu_cache_ext_enabled (emit c m) = cpu_cache_ext_enabled m"
  by (simp add: emit_def)

lemma calls_set_conf [simp]: "calls (set_conf a v m) = calls m"
  by (simp add: set_conf_def)

lemma cache_set_conf [simp]: "cpu_cache_ext_enabled (set_conf a v m) = cpu_cache_ext_enabled m"
  by (simp add: set_conf_def)

lemma smram_set_conf [simp]: "smram (dev (set_conf a v m)) = smram (dev m)"
  by (simp add: set_conf_def)

lemma pci_conf_set_conf [simp]:
  "pci_conf (dev (set_conf a v m)) = (pci_conf (dev m))[nat a := v]"
  by (simp add: set_conf_def)

lemma wf_emit [simp]: "wf_machine (emit c m) = wf_machine m"
  by (simp add: wf_machine_def)

lemma wf_set_conf [simp]: "wf_machine (set_conf a v m) = wf_machine m"
  by (simp add: wf_machine_def)

subsection \<open>Register bits\<close>

lemma reg_bit7: "(w AND 0x80 \<noteq> 0) = bit (w::u8) 7"
  using and_exp_eq_0_iff_not_bit[of w 7] by simp
lemma reg_bit6: "(w AND 0x40 \<noteq> 0) = bit (w::u8) 6"
  using and_exp_eq_0_iff_not_bit[of w 6] by simp
lemma reg_bit5: "(w AND 0x20 \<noteq> 0) = bit (w::u8) 5"
  using and_exp_eq_0_iff_not_bit[of w 5] by simp
lemma reg_bit1: "(w AND 2 \<noteq> 0) = bit (w::u8) 1"
  using and_exp_eq_0_iff_not_bit[of w 1] by simp
lemma reg_bit0: "(w AND 1 \<noteq> 0) = bit (w::u8) 0"
  using and_exp_eq_0_iff_not_bit[of w 0] by simp
lemma reg_bit_shift: "(drop_bit i w AND 4 \<noteq> 0) = bit (w::u8) (i + 2)"
  using and_exp_eq_0_iff_not_bit[of "drop_bit i w" 2] by (simp add: bit_drop_bit_eq add.commute)

lemma uint_and_1: "uint ((v::u8) AND 1) = (if bit v 0 then 1 else 0)"
  by (cases "odd v") (simp_all add: and_one_eq bit_0 odd_iff_mod_2_eq_one even_iff_mod_2_eq_zero)

lemma dev_loop: "dev (hb4_shadow_loop i m) = dev m"
  by (induction i m rule: hb4_shadow_loop.induct) (subst hb4_shadow_loop.simps, simp)

lemma cache_loop: "cpu_cache_ext_enabled (hb4_shadow_loop i m) = cpu_cache_ext_enabled m"
  by (induction i m rule: hb4_shadow_loop.induct) (subst hb4_shadow_loop.simps, simp)

lemma calls_loop:
  "calls (hb4_shadow_loop i m) =
     calls m @ map (\<lambda>j. Mem_set_mem_state_both (word_of_int (0xc8000 + j * 0x4000)) 0x8000
                          (spec_window_state (bit (conf m 0x54) (nat j + 2)) (conf m 0x55)))
                   [i..4]"
proof (induction i m rule: hb4_shadow_loop.induct)
  case (1 i m)
  show ?case
  proof (cases "i < 5")
    case True
    then have up: "[i..4] = i # [i + 1..4]" by (simp add: upto_rec1)
    from True 1 show ?thesis
      by (subst hb4_shadow_loop.simps)
         (simp add: up spec_window_state_def reg_bit_shift reg_bit6 push_bit_eq_mult)
  next
    case False
    then show ?thesis by (subst hb4_shadow_loop.simps) simp
  qed
qed

lemma upto_0_4: "[0..(4::int)] = [0, 1, 2, 3, 4]"
  by (simp add: upto.simps)

lemma upt_0_5: "[0..<(5::nat)] = [0, 1, 2, 3, 4]"
  by (simp add: upt_rec)

lemma dev_shadow [simp]: "dev (hb4_shadow m) = dev m"
  by (simp add: hb4_shadow_def Let_def dev_loop)

lemma cache_shadow [simp]: "cpu_cache_ext_enabled (hb4_shadow m) = cpu_cache_ext_enabled m"
  by (simp add: hb4_shadow_def Let_def cache_loop)

lemma conf_shadow [simp]: "conf (hb4_shadow m) a = conf m a"
  by (simp add: conf_def)

lemma wf_shadow [simp]: "wf_machine (hb4_shadow m) = wf_machine m"
  by (simp add: wf_machine_def)

lemma calls_shadow:
  "calls (hb4_shadow m) = calls m @ spec_shadow_calls (conf m 0x54) (conf m 0x55)"
  by (simp add: hb4_shadow_def Let_def calls_loop spec_shadow_calls_def spec_window_state_def
        reg_bit7 reg_bit6 reg_bit1 reg_bit0 upto_0_4 upt_0_5)

lemma dev_smram [simp]: "dev (hb4_smram m) = dev m"
  by (simp add: hb4_smram_def Let_def)

lemma cache_smram [simp]: "cpu_cache_ext_enabled (hb4_smram m) = cpu_cache_ext_enabled m"
  by (simp add: hb4_smram_def Let_def)

lemma calls_smram:
  "calls (hb4_smram m) = calls m @ spec_smram_calls (smram (dev m)) (conf m 0x60)"
  by (simp add: hb4_smram_def Let_def spec_smram_calls_def reg_bit5 reg_bit0 uint_and_1)

lemma conf_set_conf_same:
  "wf_machine m \<Longrightarrow> 0 \<le> a \<Longrightarrow> a < 128 \<Longrightarrow> conf (set_conf a v m) a = v"
  by (simp add: conf_def wf_machine_def)

lemma conf_set_conf_other:
  "0 \<le> a \<Longrightarrow> 0 \<le> b \<Longrightarrow> a \<noteq> b \<Longrightarrow> conf (set_conf a v m) b = conf m b"
  by (simp add: conf_def)

lemma length_write:
  "length (pci_conf (dev (hb4_write func addr v m))) = length (pci_conf (dev m))"
  by (simp add: hb4_write_def)

lemma smram_write: "smram (dev (hb4_write func addr v m)) = smram (dev m)"
  by (simp add: hb4_write_def)

lemma nth_write_other:
  "i \<noteq> nat addr \<Longrightarrow> pci_conf (dev (hb4_write func addr v m)) ! i = pci_conf (dev m) ! i"
  by (auto simp add: hb4_write_def)

lemma wf_write [simp]: "wf_machine (hb4_write func addr v m) = wf_machine m"
  by (simp add: wf_machine_def length_write)

subsection \<open>Reads, call logs of the write paths, and the state after \<^verbatim>\<open>hb4_init\<close>\<close>

lemma wf_reset [simp]: "wf_machine (hb4_reset m) = wf_machine m"
  by (simp add: hb4_reset_def)

lemma wf_init [simp]: "wf_machine (hb4_init smr cache log)"
  by (simp add: hb4_init_def) (simp add: wf_machine_def)

lemma read_conf: "wf_machine m \<Longrightarrow> 0 \<le> a \<Longrightarrow> a < 128 \<Longrightarrow> hb4_read func a m = Some (conf m a)"
  by (simp add: hb4_read_def conf_def)

lemma calls_write_60:
  "wf_machine m \<Longrightarrow>
   calls (hb4_write func 0x60 v m) = calls m @ spec_smram_calls (smram (dev m)) v"
  by (simp add: hb4_write_def calls_smram conf_set_conf_same)

lemma calls_write_shadow:
  "addr = 0x54 \<or> addr = 0x55 \<Longrightarrow>
   calls (hb4_write func addr v m) =
     calls m @ spec_shadow_calls (conf (hb4_write func addr v m) 0x54)
                                 (conf (hb4_write func addr v m) 0x55)"
  by (auto simp add: hb4_write_def calls_shadow)

lemma emitted_append [simp]: "calls m' = calls m @ cs \<Longrightarrow> emitted m m' = cs"
  by (simp add: emitted_def)

lemma calls_init:
  "calls (hb4_init smr cache log) =
     log @ [Pci_add_card, Device_add_port_92, Smram_add,
            Mem_set_mem_state_both 0xe0000 0x20000 (MEM_READ_EXTANY, MEM_WRITE_INTERNAL),
            Flushmmucache_nopc,
            Smram_disable_all,
            Smram_enable smr 0xa0000 0xa0000 0x20000 0 1,
            Mem_set_mem_state_smram_ex 1 0xa0000 0x20000 0x02]"
  by (simp add: hb4_init_def hb4_reset_def calls_write_60 wf_machine_def calls_shadow
      conf_def spec_shadow_calls_def spec_smram_calls_def)

lemma pci_conf_init:
  "pci_conf (dev (hb4_init smr cache log)) =
     (replicate 128 0)[0 := 0x60, 1 := 0x10, 2 := 0x81, 3 := 0x88, 7 := 2, 8 := 4, 9 := 0,
        0x0a := 0, 0x0b := 6, 0x51 := 1, 0x52 := 1, 0x5a := 4, 0x5c := 0xc0, 0x5d := 0x20,
        0x5f := 0xff, 0x60 := 0x20]"
  by (simp add: hb4_init_def hb4_reset_def hb4_write_def)

lemma smram_init: "smram (dev (hb4_init smr cache log)) = smr"
  by (simp add: hb4_init_def hb4_reset_def hb4_write_def)

lemma conf_init_54: "conf (hb4_init smr cache log) 0x54 = 0"
  by (simp add: conf_def pci_conf_init)
lemma conf_init_55: "conf (hb4_init smr cache log) 0x55 = 0"
  by (simp add: conf_def pci_conf_init)
lemma conf_init_07: "conf (hb4_init smr cache log) 0x07 = 2"
  by (simp add: conf_def pci_conf_init)

lemma conf_smram [simp]: "conf (hb4_smram m) a = conf m a"
  by (simp add: conf_def)

lemma and_not_and_mask: "((old::u8) AND NOT (v AND c)) AND NOT c = old AND NOT c"
  by (rule bit_word_eqI) (auto simp: bit_simps)

lemma conf_write_other:
  "0 \<le> addr \<Longrightarrow> 0 \<le> a \<Longrightarrow> a \<noteq> addr \<Longrightarrow> conf (hb4_write func addr v m) a = conf m a"
  by (simp add: conf_def nth_write_other)

lemma conf_write_54:
  "wf_machine m \<Longrightarrow> conf (hb4_write func 0x54 v m) 0x54 = v"
  by (simp add: hb4_write_def conf_set_conf_same)

section \<open>SMRAM controller\<close>

text \<open>
  C2: for every byte \<open>v\<close>, \<open>write(0x60, v)\<close> first disables every SMRAM mapping, then
  enables the fixed region (base 0xA0000, backing 0xA0000, length 0x20000) with visibility
  outside SMM equal to bit 0 of \<open>v\<close> and visibility inside SMM always on. If bit 5 of \<open>v\<close>
  is set, alias 1 is routed with mode 0x02, and alias 0 as well exactly when bit 0 is set;
  if bit 5 is clear no alias call is made. The log grows by exactly these calls.
\<close>

theorem hb4_write_60_smram:
  assumes "wf_machine m"
  shows "calls (hb4_write func 0x60 v m) =
           calls m @
           [Smram_disable_all,
            Smram_enable (smram (dev m)) 0xa0000 0xa0000 0x20000 (if bit v 0 then 1 else 0) 1] @
           (if bit v 5 then
              (if bit v 0 then [Mem_set_mem_state_smram_ex 0 0xa0000 0x20000 0x02] else []) @
              [Mem_set_mem_state_smram_ex 1 0xa0000 0x20000 0x02]
            else [])"
  using assms by (simp only: calls_write_60 spec_smram_calls_def)

theorem hb4_write_60_smram_witness:
  "wf_machine (hb4_init 7 0 []) \<and>
   emitted (hb4_init 7 0 []) (hb4_write 0 0x60 0x21 (hb4_init 7 0 [])) =
     [Smram_disable_all,
      Smram_enable 7 0xa0000 0xa0000 0x20000 1 1,
      Mem_set_mem_state_smram_ex 0 0xa0000 0x20000 0x02,
      Mem_set_mem_state_smram_ex 1 0xa0000 0x20000 0x02]"
  using hb4_write_60_smram [of "hb4_init 7 0 []" 0 "0x21"]
  by (simp add: smram_init)

section \<open>Register store\<close>

text \<open>
  C4: for every byte \<open>v\<close>, \<open>write(0x50, v)\<close> stores \<open>(v & 0xF8) | 0x04\<close>; a following
  \<open>read(0x50)\<close> returns that value, whose bits 0 to 2 are the fixed pattern 100.
\<close>

theorem hb4_write_50_cache_size:
  assumes "wf_machine m"
  shows "hb4_read func' 0x50 (hb4_write func 0x50 v m) = Some ((v AND 0xf8) OR 4)
       \<and> conf (hb4_write func 0x50 v m) 0x50 AND 7 = 4"
proof -
  have "conf (hb4_write func 0x50 v m) 0x50 = (v AND 0xf8) OR 4"
    using assms by (simp add: hb4_write_def conf_def wf_machine_def)
  moreover have "((v AND 0xf8) OR 4) AND 7 = 4"
    by (simp add: bit.conj_disj_distrib2 and.assoc)
  ultimately show ?thesis
    using assms by (simp add: read_conf)
qed

theorem hb4_write_50_cache_size_witness:
  "wf_machine (hb4_init 7 0 []) \<and>
   hb4_read 0 0x50 (hb4_write 0 0x50 0xff (hb4_init 7 0 [])) = Some 0xfc \<and>
   conf (hb4_write 0 0x50 0xff (hb4_init 7 0 [])) 0x50 AND 7 = 4"
  using hb4_write_50_cache_size [of "hb4_init 7 0 []" 0 0 "0xff"]
  by simp

text \<open>
  C6: whatever register 0x07 held (\<open>old\<close>) and whatever byte \<open>v\<close> is written,
  \<open>write(0x07, v)\<close> leaves \<open>old & ~(v & 0xF9)\<close> in register 0x07: a written 1 clears
  bits 0 and 3 to 7, and bits 1 and 2 keep their old value.
\<close>

theorem hb4_write_07_clear_bits:
  assumes "wf_machine m" and "hb4_read func0 0x07 m = Some old"
  shows "hb4_read func' 0x07 (hb4_write func 0x07 v m) = Some (old AND NOT (v AND 0xf9))
       \<and> (old AND NOT (v AND 0xf9)) AND 6 = old AND 6"
proof -
  have old: "conf m 0x07 = old"
    using assms by (simp add: read_conf)
  have "conf (hb4_write func 0x07 v m) 0x07 = old AND NOT (v AND 0xf9)"
    using assms(1) old by (simp add: hb4_write_def conf_set_conf_same)
  moreover have "(6::u8) = NOT 0xf9" by simp
  then have "(old AND NOT (v AND 0xf9)) AND 6 = old AND 6"
    by (simp only: and_not_and_mask)
  ultimately show ?thesis
    using assms(1) by (simp add: read_conf)
qed

theorem hb4_write_07_clear_bits_witness:
  "wf_machine (hb4_init 7 0 []) \<and>
   hb4_read 0 0x07 (hb4_init 7 0 []) = Some 0x02 \<and>
   hb4_read 0 0x07 (hb4_write 0 0x07 0xff (hb4_init 7 0 [])) = Some 0x02"
  using hb4_write_07_clear_bits [of "hb4_init 7 0 []" 0 "0x02" 0 0 "0xff"]
  by (simp add: read_conf conf_init_07)

text \<open>
  C7: at every offset whose policy is to store the written byte as it is (0x04, 0x05,
  0x0C, 0x0D, 0x51 to 0x5F, 0x60, 0x61), \<open>write(offset, v)\<close> followed by
  \<open>read(offset)\<close> returns \<open>v\<close>.
\<close>

theorem hb4_write_read_roundtrip:
  assumes "wf_machine m"
    and "addr \<in> {0x04, 0x05, 0x0c, 0x0d} \<union> {0x51..0x5f} \<union> {0x60, 0x61}"
  shows "hb4_read func' addr (hb4_write func addr v m) = Some v"
proof -
  have range: "0 \<le> addr" "addr < 128"
    using assms(2) by auto
  have "conf (hb4_write func addr v m) addr = v"
    using assms range by (auto simp add: hb4_write_def conf_set_conf_same)
  then show ?thesis
    using assms(1) range by (simp add: read_conf)
qed

theorem hb4_write_read_roundtrip_witness:
  "wf_machine (hb4_init 7 0 []) \<and>
   (0x58::int) \<in> {0x04, 0x05, 0x0c, 0x0d} \<union> {0x51..0x5f} \<union> {0x60, 0x61} \<and>
   hb4_read 0 0x58 (hb4_write 0 0x58 0xab (hb4_init 7 0 [])) = Some 0xab"
  using hb4_write_read_roundtrip [of "hb4_init 7 0 []" "0x58" 0 0 "0xab"]
  by simp

text \<open>
  C8: at an offset with no write policy (any offset other than 0x04, 0x05, 0x07, 0x0C,
  0x0D and 0x50 to 0x61, in particular any such offset in 0..127) a write returns the
  machine as it was: no stored byte, no global and no external call changes, and since
  \<^const>\<open>hb4_write\<close> is a total function into machine states there is no error outcome.
\<close>

theorem hb4_write_undefined_offset_noop:
  assumes "addr \<notin> {0x04, 0x05, 0x07, 0x0c, 0x0d} \<union> {0x50..0x61}"
  shows "hb4_write func addr v m = m"
  using assms by (auto simp add: hb4_write_def)

theorem hb4_write_undefined_offset_noop_witness:
  "(0x40::int) \<notin> {0x04, 0x05, 0x07, 0x0c, 0x0d} \<union> {0x50..0x61} \<and>
   hb4_write 0 0x40 0xff (hb4_init 7 0 []) = hb4_init 7 0 []"
  using hb4_write_undefined_offset_noop [of "0x40" 0 "0xff" "hb4_init 7 0 []"]
  by simp

text \<open>
  C10: for offsets \<open>addr\<close> and \<open>a\<close> in 0..127 with \<open>a \<noteq> addr\<close>, \<open>write(addr, v)\<close>
  leaves the byte at \<open>a\<close> as it was; the array keeps its length and the SMRAM handle is
  untouched. Only the byte at \<open>addr\<close> can change.
\<close>

theorem hb4_write_frame:
  assumes "0 \<le> addr" and "addr < 128" and "0 \<le> a" and "a < 128" and "a \<noteq> addr"
  shows "conf (hb4_write func addr v m) a = conf m a
       \<and> hb4_read func' a (hb4_write func addr v m) = hb4_read func' a m
       \<and> length (pci_conf (dev (hb4_write func addr v m))) = length (pci_conf (dev m))
       \<and> smram (dev (hb4_write func addr v m)) = smram (dev m)"
proof -
  have "nat a \<noteq> nat addr"
    using assms by simp
  then show ?thesis
    by (simp add: conf_def hb4_read_def nth_write_other length_write smram_write)
qed

theorem hb4_write_frame_witness:
  "(0::int) \<le> 0x54 \<and> (0x54::int) < 128 \<and> (0::int) \<le> 0x55 \<and> (0x55::int) < 128 \<and>
   (0x55::int) \<noteq> 0x54 \<and>
   conf (hb4_write 0 0x54 0xff (hb4_init 7 0 [])) 0x55 = 0 \<and>
   hb4_read 0 0x55 (hb4_write 0 0x54 0xff (hb4_init 7 0 [])) = Some 0"
  using hb4_write_frame [of "0x54" "0x55" 0 "0xff" "hb4_init 7 0 []" 0]
  by (simp add: conf_init_55 read_conf)

section \<open>Shadow-region controller\<close>

text \<open>
  C3: a write to 0x54 or 0x55 stores the byte and runs the shadow-region controller on
  the new register values. The window at 0xE0000 (length 0x20000) is always set. If bit 0
  of register 0x54 is clear, nothing else is set before the flush. If it is set, the
  window at 0xC0000 (length 0x8000) gets read mode Internal and the write mode chosen by
  bit 6 of register 0x55 when bit 1 of register 0x54 is set, and (ExternalAny,
  ExternalAny) when bit 1 is clear, followed by the five windows from 0xC8000. After
  \<open>write(0x54, 0x01)\<close> and then \<open>write(0x55, 0x00)\<close> the window at 0xC0000 is set to
  (ExternalAny, ExternalAny).
\<close>

theorem hb4_write_54_55_shadow:
  assumes "wf_machine m" and "addr = 0x54 \<or> addr = 0x55"
  shows "(let m' = hb4_write func addr v m; r54 = conf m' 0x54; r55 = conf m' 0x55;
              wr = (if bit r55 6 then MEM_WRITE_EXTANY else MEM_WRITE_INTERNAL)
          in conf m' addr = v
           \<and> calls m' =
               calls m @
               [Mem_set_mem_state_both 0xe0000 0x20000
                  (if bit r55 7 then MEM_READ_INTERNAL else MEM_READ_EXTANY, wr)] @
               (if bit r54 0 then
                  Mem_set_mem_state_both 0xc0000 0x8000
                    (if bit r54 1 then (MEM_READ_INTERNAL, wr)
                     else (MEM_READ_EXTANY, MEM_WRITE_EXTANY)) #
                  map (\<lambda>i. Mem_set_mem_state_both (0xc8000 + of_nat i * 0x4000) 0x8000
                              (spec_window_state (bit r54 (i + 2)) r55)) [0..<5]
                else []) @
               [Flushmmucache_nopc])
       \<and> emitted (hb4_write func 0x54 0x01 m)
                  (hb4_write func' 0x55 0x00 (hb4_write func 0x54 0x01 m)) =
           [Mem_set_mem_state_both 0xe0000 0x20000 (MEM_READ_EXTANY, MEM_WRITE_INTERNAL),
            Mem_set_mem_state_both 0xc0000 0x8000 (MEM_READ_EXTANY, MEM_WRITE_EXTANY),
            Mem_set_mem_state_both 0xc8000 0x8000 (MEM_READ_EXTANY, MEM_WRITE_EXTANY),
            Mem_set_mem_state_both 0xcc000 0x8000 (MEM_READ_EXTANY, MEM_WRITE_EXTANY),
            Mem_set_mem_state_both 0xd0000 0x8000 (MEM_READ_EXTANY, MEM_WRITE_EXTANY),
            Mem_set_mem_state_both 0xd4000 0x8000 (MEM_READ_EXTANY, MEM_WRITE_EXTANY),
            Mem_set_mem_state_both 0xd8000 0x8000 (MEM_READ_EXTANY, MEM_WRITE_EXTANY),
            Flushmmucache_nopc]"
proof -
  have stored: "conf (hb4_write func addr v m) addr = v"
    using assms by (auto simp add: hb4_write_def conf_set_conf_same)
  have log: "calls (hb4_write func addr v m) =
      calls m @ spec_shadow_calls (conf (hb4_write func addr v m) 0x54)
                                  (conf (hb4_write func addr v m) 0x55)"
    using assms(2) by (rule calls_write_shadow)
  let ?m1 = "hb4_write func 0x54 0x01 m"
  let ?m2 = "hb4_write func' 0x55 0x00 ?m1"
  have wf1: "wf_machine ?m1"
    using assms(1) by simp
  have r55: "conf ?m2 0x55 = 0"
    using wf1 by (simp add: hb4_write_def conf_set_conf_same)
  have r54: "conf ?m2 0x54 = 1"
    using assms(1)
    by (simp add: hb4_write_def conf_set_conf_same conf_set_conf_other)
  have "calls ?m2 = calls ?m1 @ spec_shadow_calls 1 0"
    using calls_write_shadow [of "0x55" func' 0 ?m1] r54 r55 by simp
  then have scen: "emitted ?m1 ?m2 = spec_shadow_calls 1 0"
    by (rule emitted_append)
  have eval: "spec_shadow_calls 1 0 =
      [Mem_set_mem_state_both 0xe0000 0x20000 (MEM_READ_EXTANY, MEM_WRITE_INTERNAL),
       Mem_set_mem_state_both 0xc0000 0x8000 (MEM_READ_EXTANY, MEM_WRITE_EXTANY),
       Mem_set_mem_state_both 0xc8000 0x8000 (MEM_READ_EXTANY, MEM_WRITE_EXTANY),
       Mem_set_mem_state_both 0xcc000 0x8000 (MEM_READ_EXTANY, MEM_WRITE_EXTANY),
       Mem_set_mem_state_both 0xd0000 0x8000 (MEM_READ_EXTANY, MEM_WRITE_EXTANY),
       Mem_set_mem_state_both 0xd4000 0x8000 (MEM_READ_EXTANY, MEM_WRITE_EXTANY),
       Mem_set_mem_state_both 0xd8000 0x8000 (MEM_READ_EXTANY, MEM_WRITE_EXTANY),
       Flushmmucache_nopc]"
    by (simp add: spec_shadow_calls_def spec_window_state_def upt_0_5 bit_Suc)
  show ?thesis
    unfolding Let_def
    using stored log scen eval
    by (simp add: spec_shadow_calls_def spec_window_state_def)
qed

theorem hb4_write_54_55_shadow_witness:
  "wf_machine (hb4_init 7 0 []) \<and> ((0x54::int) = 0x54 \<or> (0x54::int) = 0x55) \<and>
   conf (hb4_write 0 0x54 0x03 (hb4_init 7 0 [])) 0x54 = 0x03 \<and>
   emitted (hb4_init 7 0 []) (hb4_write 0 0x54 0x03 (hb4_init 7 0 [])) =
     [Mem_set_mem_state_both 0xe0000 0x20000 (MEM_READ_EXTANY, MEM_WRITE_INTERNAL),
      Mem_set_mem_state_both 0xc0000 0x8000 (MEM_READ_INTERNAL, MEM_WRITE_INTERNAL),
      Mem_set_mem_state_both 0xc8000 0x8000 (MEM_READ_EXTANY, MEM_WRITE_EXTANY),
      Mem_set_mem_state_both 0xcc000 0x8000 (MEM_READ_EXTANY, MEM_WRITE_EXTANY),
      Mem_set_mem_state_both 0xd0000 0x8000 (MEM_READ_EXTANY, MEM_WRITE_EXTANY),
      Mem_set_mem_state_both 0xd4000 0x8000 (MEM_READ_EXTANY, MEM_WRITE_EXTANY),
      Mem_set_mem_state_both 0xd8000 0x8000 (MEM_READ_EXTANY, MEM_WRITE_EXTANY),
      Flushmmucache_nopc] \<and>
   emitted (hb4_write 0 0x54 0x01 (hb4_init 7 0 []))
           (hb4_write 0 0x55 0x00 (hb4_write 0 0x54 0x01 (hb4_init 7 0 []))) =
     [Mem_set_mem_state_both 0xe0000 0x20000 (MEM_READ_EXTANY, MEM_WRITE_INTERNAL),
      Mem_set_mem_state_both 0xc0000 0x8000 (MEM_READ_EXTANY, MEM_WRITE_EXTANY),
      Mem_set_mem_state_both 0xc8000 0x8000 (MEM_READ_EXTANY, MEM_WRITE_EXTANY),
      Mem_set_mem_state_both 0xcc000 0x8000 (MEM_READ_EXTANY, MEM_WRITE_EXTANY),
      Mem_set_mem_state_both 0xd0000 0x8000 (MEM_READ_EXTANY, MEM_WRITE_EXTANY),
      Mem_set_mem_state_both 0xd4000 0x8000 (MEM_READ_EXTANY, MEM_WRITE_EXTANY),
      Mem_set_mem_state_both 0xd8000 0x8000 (MEM_READ_EXTANY, MEM_WRITE_EXTANY),
      Flushmmucache_nopc]"
proof -
  have r55: "conf (hb4_write 0 0x54 0x03 (hb4_init 7 0 [])) 0x55 = 0"
    by (simp add: conf_write_other conf_init_55)
  have bits: "bit (3::u8) 0" "bit (3::u8) 1" "\<not> bit (3::u8) 2" "\<not> bit (3::u8) 3"
    "\<not> bit (3::u8) 4" "\<not> bit (3::u8) 5" "\<not> bit (3::u8) 6"
    by simp_all
  show ?thesis
    using hb4_write_54_55_shadow [of "hb4_init 7 0 []" "0x54" 0 "0x03" 0]
    by (simp add: Let_def r55 bits emitted_def upt_0_5 spec_window_state_def)
qed

text \<open>
  C9: what the shadow-region controller sends to the memory subsystem depends only on
  registers 0x54 and 0x55. Two machines that agree on these two registers get the same
  sequence of calls, whatever else differs; running the controller a second time with the
  registers unchanged repeats the sequence; the earlier log is kept as a prefix; and the
  sequence is the one the spec's recipe gives for the two register values.
\<close>

theorem hb4_shadow_pure:
  assumes "conf m1 0x54 = conf m2 0x54" and "conf m1 0x55 = conf m2 0x55"
  shows "emitted m1 (hb4_shadow m1) = emitted m2 (hb4_shadow m2)
       \<and> emitted (hb4_shadow m1) (hb4_shadow (hb4_shadow m1)) = emitted m1 (hb4_shadow m1)
       \<and> calls (hb4_shadow m1) = calls m1 @ emitted m1 (hb4_shadow m1)
       \<and> emitted m1 (hb4_shadow m1) = spec_shadow_calls (conf m1 0x54) (conf m1 0x55)"
proof -
  have e: "emitted m (hb4_shadow m) = spec_shadow_calls (conf m 0x54) (conf m 0x55)" for m
    by (rule emitted_append) (rule calls_shadow)
  have "emitted (hb4_shadow m1) (hb4_shadow (hb4_shadow m1)) =
          spec_shadow_calls (conf m1 0x54) (conf m1 0x55)"
    using e [of "hb4_shadow m1"] by simp
  then show ?thesis
    using assms by (simp add: e calls_shadow)
qed

theorem hb4_shadow_pure_witness:
  "conf (hb4_write 0 0x54 0x03 (hb4_init 7 0 [])) 0x54 =
     conf (hb4_write 0 0x50 0x80 (hb4_write 0 0x54 0x03 (hb4_init 9 1 [Smram_add]))) 0x54 \<and>
   conf (hb4_write 0 0x54 0x03 (hb4_init 7 0 [])) 0x55 =
     conf (hb4_write 0 0x50 0x80 (hb4_write 0 0x54 0x03 (hb4_init 9 1 [Smram_add]))) 0x55 \<and>
   emitted (hb4_write 0 0x54 0x03 (hb4_init 7 0 []))
           (hb4_shadow (hb4_write 0 0x54 0x03 (hb4_init 7 0 []))) =
     emitted (hb4_write 0 0x50 0x80 (hb4_write 0 0x54 0x03 (hb4_init 9 1 [Smram_add])))
       (hb4_shadow (hb4_write 0 0x50 0x80 (hb4_write 0 0x54 0x03 (hb4_init 9 1 [Smram_add]))))"
proof -
  let ?a = "hb4_write 0 0x54 0x03 (hb4_init 7 0 [])"
  let ?b = "hb4_write 0 0x50 0x80 (hb4_write 0 0x54 0x03 (hb4_init 9 1 [Smram_add]))"
  have a: "conf ?a 0x54 = 3" "conf ?a 0x55 = 0"
    by (simp_all add: conf_write_other conf_write_54 conf_init_55)
  have b: "conf ?b 0x54 = 3" "conf ?b 0x55 = 0"
    by (simp_all add: conf_write_other conf_write_54 conf_init_55)
  show ?thesis
    using hb4_shadow_pure [of ?a ?b] a b by simp
qed

text \<open>
  C5: the claim is that the seven windows set by one run of the controller are pairwise
  disjoint, so that a later call never overrides addresses set by an earlier one. The
  code does otherwise: the five loop windows start 0x4000 apart but are each 0x8000
  long, so each overlaps the next. On an initialised device, \<open>write(0x54, 0x05)\<close> sets
  0xC8000 to 0xCFFFF to (Internal, Internal) for bit 2 and the very next call sets
  0xCC000 to 0xD3FFF to (ExternalAny, ExternalAny), overriding the upper half. The
  register table at the top of the C file gives every bit of register 0x54 its own 16KB
  range (bit 2: C8000-CBFFF, bit 3: CC000-CFFFF, and so on).
\<close>

theorem hb4_shadow_windows_overlap:
  "emitted (hb4_init 7 0 []) (hb4_write 0 0x54 0x05 (hb4_init 7 0 [])) =
     [Mem_set_mem_state_both 0xe0000 0x20000 (MEM_READ_EXTANY, MEM_WRITE_INTERNAL),
      Mem_set_mem_state_both 0xc0000 0x8000 (MEM_READ_EXTANY, MEM_WRITE_EXTANY),
      Mem_set_mem_state_both 0xc8000 0x8000 (MEM_READ_INTERNAL, MEM_WRITE_INTERNAL),
      Mem_set_mem_state_both 0xcc000 0x8000 (MEM_READ_EXTANY, MEM_WRITE_EXTANY),
      Mem_set_mem_state_both 0xd0000 0x8000 (MEM_READ_EXTANY, MEM_WRITE_EXTANY),
      Mem_set_mem_state_both 0xd4000 0x8000 (MEM_READ_EXTANY, MEM_WRITE_EXTANY),
      Mem_set_mem_state_both 0xd8000 0x8000 (MEM_READ_EXTANY, MEM_WRITE_EXTANY),
      Flushmmucache_nopc]
   \<and> windows_overlap (0xc8000, 0x8000) (0xcc000, 0x8000)
   \<and> \<not> pairwise_disjoint
         (windows_of (emitted (hb4_init 7 0 []) (hb4_write 0 0x54 0x05 (hb4_init 7 0 []))))"
proof -
  let ?m = "hb4_init 7 0 []"
  have regs: "conf (hb4_write 0 0x54 0x05 ?m) 0x54 = 5" "conf (hb4_write 0 0x54 0x05 ?m) 0x55 = 0"
    by (simp_all add: conf_write_other conf_write_54 conf_init_55)
  have bits: "bit (5::u8) 0" "\<not> bit (5::u8) 1" "bit (5::u8) 2" "\<not> bit (5::u8) 3"
    "\<not> bit (5::u8) 4" "\<not> bit (5::u8) 5" "\<not> bit (5::u8) 6"
    by simp_all
  have "calls (hb4_write 0 0x54 0x05 ?m) = calls ?m @ spec_shadow_calls 5 0"
    using calls_write_shadow [of "0x54" 0 "0x05" ?m] regs by simp
  then have e: "emitted ?m (hb4_write 0 0x54 0x05 ?m) = spec_shadow_calls 5 0"
    by (rule emitted_append)
  show ?thesis
    unfolding e
    by (simp add: spec_shadow_calls_def spec_window_state_def upt_0_5 bits windows_of_def)
qed

section \<open>Reset\<close>

text \<open>
  C1: after \<open>reset()\<close> the identity bytes read back as 0x60, 0x10, 0x81, 0x88 at offsets
  0 to 3, offset 0x51 reads 0x01 and offset 0x5F reads 0xFF. Reset appends to the log the
  calls of one run of the shadow-region controller (on registers 0x54 and 0x55, which
  reset does not touch) and then the calls of \<open>write(0x60, 0x20)\<close>: all SMRAM disabled,
  SMRAM enabled at base 0xA0000 with length 0x20000, not visible outside SMM, visible
  inside SMM, and alias 1 routed with mode 0x02. Register 0x60 reads 0x20 afterwards.
\<close>

theorem hb4_reset_identity_and_smram:
  assumes "wf_machine m"
  shows "hb4_read func 0x00 (hb4_reset m) = Some 0x60
       \<and> hb4_read func 0x01 (hb4_reset m) = Some 0x10
       \<and> hb4_read func 0x02 (hb4_reset m) = Some 0x81
       \<and> hb4_read func 0x03 (hb4_reset m) = Some 0x88
       \<and> hb4_read func 0x51 (hb4_reset m) = Some 0x01
       \<and> hb4_read func 0x5f (hb4_reset m) = Some 0xff
       \<and> hb4_read func 0x60 (hb4_reset m) = Some 0x20
       \<and> calls (hb4_reset m) =
           calls m @ spec_shadow_calls (conf m 0x54) (conf m 0x55) @
           [Smram_disable_all,
            Smram_enable (smram (dev m)) 0xa0000 0xa0000 0x20000 0 1,
            Mem_set_mem_state_smram_ex 1 0xa0000 0x20000 0x02]"
proof -
  have len: "length (pci_conf (dev m)) = 128"
    using assms by (simp add: wf_machine_def)
  have reads: "hb4_read func 0x00 (hb4_reset m) = Some 0x60"
    "hb4_read func 0x01 (hb4_reset m) = Some 0x10"
    "hb4_read func 0x02 (hb4_reset m) = Some 0x81"
    "hb4_read func 0x03 (hb4_reset m) = Some 0x88"
    "hb4_read func 0x51 (hb4_reset m) = Some 0x01"
    "hb4_read func 0x5f (hb4_reset m) = Some 0xff"
    "hb4_read func 0x60 (hb4_reset m) = Some 0x20"
    using len by (simp_all add: hb4_read_def hb4_reset_def hb4_write_def)
  have "calls (hb4_reset m) =
          calls m @ spec_shadow_calls (conf m 0x54) (conf m 0x55) @
          spec_smram_calls (smram (dev m)) 0x20"
    using assms
    by (simp add: hb4_reset_def calls_write_60 calls_shadow conf_set_conf_other)
  moreover have "spec_smram_calls (smram (dev m)) 0x20 =
      [Smram_disable_all,
       Smram_enable (smram (dev m)) 0xa0000 0xa0000 0x20000 0 1,
       Mem_set_mem_state_smram_ex 1 0xa0000 0x20000 0x02]"
    by (simp add: spec_smram_calls_def)
  ultimately show ?thesis using reads by simp
qed

theorem hb4_reset_identity_and_smram_witness:
  "wf_machine (hb4_init 7 0 []) \<and>
   hb4_read 0 0x00 (hb4_reset (hb4_init 7 0 [])) = Some 0x60 \<and>
   hb4_read 0 0x01 (hb4_reset (hb4_init 7 0 [])) = Some 0x10 \<and>
   emitted (hb4_init 7 0 []) (hb4_reset (hb4_init 7 0 [])) =
     [Mem_set_mem_state_both 0xe0000 0x20000 (MEM_READ_EXTANY, MEM_WRITE_INTERNAL),
      Flushmmucache_nopc,
      Smram_disable_all,
      Smram_enable 7 0xa0000 0xa0000 0x20000 0 1,
      Mem_set_mem_state_smram_ex 1 0xa0000 0x20000 0x02]"
  using hb4_reset_identity_and_smram [of "hb4_init 7 0 []" 0]
  by (simp add: smram_init conf_init_54 conf_init_55 spec_shadow_calls_def)


end
